theory Spec2Isabelle
  imports Complex_Main
begin

section \<open>Numbers and strings of the TypeScript runtime\<close>

text \<open>
  The services compute with JavaScript numbers (IEEE doubles).  This development reads
  them as real numbers: \<open>Math.sin\<close>, \<open>Math.cos\<close>, \<open>Math.sqrt\<close> and \<open>Math.atan2\<close> are
  the exact functions, and comparisons are exact.  \<open>NaN\<close> and the infinities have no
  counterpart.  Dates are their \<open>getTime()\<close> value, an integer number of milliseconds.

  \<open>Math.round\<close> rounds to the nearest integer, a tie going up.
\<close>

definition Math_round :: "real \<Rightarrow> int" where
  "Math_round x = \<lfloor>x + 1 / 2\<rfloor>"

text \<open>
  \<open>Math.atan2(y, x)\<close>, by the quadrant of the point \<open>(x, y)\<close>.
\<close>

definition Math_atan2 :: "real \<Rightarrow> real \<Rightarrow> real" where
  "Math_atan2 y x =
     (if 0 < x then arctan (y / x)
      else if x < 0 then (if 0 \<le> y then arctan (y / x) + pi else arctan (y / x) - pi)
      else if 0 < y then pi / 2
      else if y < 0 then - (pi / 2)
      else 0)"

text \<open>
  A template literal \<open>`${n}`\<close> with an integral number prints its decimal digits, with a
  leading minus sign for a negative one (the runtime switches to exponent notation from
  \<open>10^21\<close> on, which the model does not).
\<close>

definition digit_char :: "nat \<Rightarrow> char" where
  "digit_char d = ''0123456789'' ! d"

function show_nat :: "nat \<Rightarrow> string" where
  "show_nat n = (if n < 10 then [digit_char n] else show_nat (n div 10) @ [digit_char (n mod 10)])"
  by pat_completeness auto
termination
  by (relation "measure (\<lambda>n. n)") auto

declare show_nat.simps [simp del]

definition show_int :: "int \<Rightarrow> string" where
  "show_int i = (if i < 0 then ''-'' @ show_nat (nat (- i)) else show_nat (nat i))"

text \<open>
  \<open>x.toFixed(1)\<close>: the sign is split off, \<open>n\<close> is the integer for which \<open>n / 10\<close> is
  closest to the magnitude (the larger one on a tie), and the last digit of \<open>n\<close> goes
  behind the decimal point.
\<close>

definition toFixed1 :: "real \<Rightarrow> string" where
  "toFixed1 x =
     (let s = (if x < 0 then ''-'' else '''');
          n = nat \<lfloor>\<bar>x\<bar> * 10 + 1 / 2\<rfloor>
      in s @ show_nat (n div 10) @ ''.'' @ [digit_char (n mod 10)])"

text \<open>Reading a digit string back, to say what a printed number denotes.\<close>

definition digit_val :: "char \<Rightarrow> nat" where
  "digit_val c = of_char c - 48"

definition read_nat :: "string \<Rightarrow> nat" where
  "read_nat s = foldl (\<lambda>acc c. 10 * acc + digit_val c) 0 s"


section \<open>GPSService: geodesy and presentation\<close>

text \<open>
  A position \<open>{latitude, longitude}\<close>, in degrees, is a pair.
\<close>

type_synonym Position = "real \<times> real"

text \<open>\<open>GPSService.calculateDistance\<close>: the haversine formula.\<close>

definition calculateDistance :: "Position \<Rightarrow> Position \<Rightarrow> real" where
  "calculateDistance pos1 pos2 =
     (let R = 6371000;
          phi1 = fst pos1 * pi / 180;
          phi2 = fst pos2 * pi / 180;
          dphi = (fst pos2 - fst pos1) * pi / 180;
          dlam = (snd pos2 - snd pos1) * pi / 180;
          a = sin (dphi / 2) * sin (dphi / 2) +
              cos phi1 * cos phi2 * sin (dlam / 2) * sin (dlam / 2);
          c = 2 * Math_atan2 (sqrt a) (sqrt (1 - a))
      in R * c)"

text \<open>\<open>GPSService.formatDistance\<close>.\<close>

definition formatDistance :: "real \<Rightarrow> string" where
  "formatDistance meters =
     (if meters < 1000 then show_int (Math_round meters) @ ''m''
      else if meters < 10000 then toFixed1 (meters / 1000) @ ''km''
      else show_int (Math_round (meters / 1000)) @ ''km'')"


section \<open>TrackingService: the data\<close>

datatype LocationSource = gps | network | manual | witness

record Location =
  loc_id :: string
  latitude :: real
  longitude :: real
  address :: "string option"
  timestamp :: int
  accuracy :: "real option"
  source :: LocationSource

datatype ItemStatus = lost | found | returned

text \<open>
  A \<open>Device\<close> or a \<open>Vehicle\<close>, with the fields the tracking operations read or write.
  \<open>item_type\<close> is the \<open>type\<close> property, which a device has and a vehicle has not: the
  service tells the two apart by \<open>'type' in item\<close>.  The descriptive fields (name, brand,
  number plate and so on) play no part in tracking and are left out.
\<close>

record Item =
  item_id :: string
  item_type :: "string option"
  status :: ItemStatus
  lastKnownLocation :: "Location option"
  currentLocation :: "Location option"
  isActive :: bool

datatype ItemType = device | vehicle

record TrackingUpdate =
  upd_id :: string
  itemId :: string
  itemType :: ItemType
  location :: Location
  upd_timestamp :: int
  upd_source :: string
  confidence :: real

text \<open>
  The service's maps.  A subscriber's callback is a value of the opaque type \<open>'cb\<close>; an
  operation returns, next to the new state, the calls it made: which callback, with which
  update, in order.  Both operations that notify do so after their last write to the
  state, so whatever a callback does in turn is a later operation on the new state.
\<close>

record 'cb TrackingService =
  devices :: "string \<rightharpoonup> Item"
  vehicles :: "string \<rightharpoonup> Item"
  trackingUpdates :: "string \<rightharpoonup> TrackingUpdate list"
  locationUpdateCallbacks :: "string \<rightharpoonup> 'cb"

text \<open>
  What \<open>updateItemLocationRealTime\<close> draws from the clock and from \<open>Math.random()\<close>, in
  the order of the reads.  \<open>random_suffix\<close> is \<open>Math.random().toString(36).substr(2, 9)\<close>.
\<close>

record RealTimeEnv =
  now_location_id :: int
  random_suffix :: string
  random_latitude :: real
  random_longitude :: real
  now_location :: int
  random_accuracy :: real
  now_update_id :: int
  now_update :: int
  random_confidence :: real

text \<open>The two clock reads of \<open>updateItemLocation\<close>.\<close>

record ManualEnv =
  now_manual_id :: int
  now_manual :: int


section \<open>TrackingService: the operations\<close>

definition position :: "Location \<Rightarrow> Position" where
  "position l = (latitude l, longitude l)"

text \<open>\<open>this.trackingUpdates.get(itemId) || []\<close>.\<close>

definition getTrackingHistory :: "'cb TrackingService \<Rightarrow> string \<Rightarrow> TrackingUpdate list" where
  "getTrackingHistory st i = (case trackingUpdates st i of Some us \<Rightarrow> us | None \<Rightarrow> [])"

text \<open>\<open>device || vehicle\<close> for one id.\<close>

definition findItem :: "'cb TrackingService \<Rightarrow> string \<Rightarrow> Item option" where
  "findItem st i = (case devices st i of Some d \<Rightarrow> Some d | None \<Rightarrow> vehicles st i)"

text \<open>
  \<open>item.currentLocation = newLocation\<close> on the object found under \<open>i\<close>: the device if
  there is one, the vehicle otherwise.
\<close>

definition setCurrentLocation :: "'cb TrackingService \<Rightarrow> string \<Rightarrow> Location \<Rightarrow> 'cb TrackingService" where
  "setCurrentLocation st i l =
     (case devices st i of
        Some d \<Rightarrow> st\<lparr>devices := (devices st)(i \<mapsto> d\<lparr>currentLocation := Some l\<rparr>)\<rparr>
      | None \<Rightarrow>
          (case vehicles st i of
             Some v \<Rightarrow> st\<lparr>vehicles := (vehicles st)(i \<mapsto> v\<lparr>currentLocation := Some l\<rparr>)\<rparr>
           | None \<Rightarrow> st))"

text \<open>\<open>item.currentLocation || item.lastKnownLocation\<close>.\<close>

definition lastLocationOf :: "Item \<Rightarrow> Location option" where
  "lastLocationOf item =
     (case currentLocation item of Some l \<Rightarrow> Some l | None \<Rightarrow> lastKnownLocation item)"

definition newRealTimeLocation :: "RealTimeEnv \<Rightarrow> Location \<Rightarrow> Location" where
  "newRealTimeLocation env lastLocation =
     \<lparr> loc_id = ''realtime_'' @ show_int (now_location_id env) @ ''_'' @ random_suffix env,
       latitude = latitude lastLocation + (random_latitude env - 0.5) * 0.002,
       longitude = longitude lastLocation + (random_longitude env - 0.5) * 0.002,
       address = None,
       timestamp = now_location env,
       accuracy = Some (random_accuracy env * 20 + 3),
       source = gps \<rparr>"

definition newRealTimeUpdate :: "RealTimeEnv \<Rightarrow> Item \<Rightarrow> Location \<Rightarrow> TrackingUpdate" where
  "newRealTimeUpdate env item newLocation =
     \<lparr> upd_id = ''update_'' @ show_int (now_update_id env),
       itemId = item_id item,
       itemType = (if item_type item \<noteq> None then device else vehicle),
       location = newLocation,
       upd_timestamp = now_update env,
       upd_source = ''Real-time GPS'',
       confidence = random_confidence env * 0.2 + 0.8 \<rparr>"

text \<open>
  \<open>updates.push(update)\<close>, then \<open>updates.splice(0, updates.length - 100)\<close> when more than
  100 are held.
\<close>

definition pushCapped :: "TrackingUpdate list \<Rightarrow> TrackingUpdate \<Rightarrow> TrackingUpdate list" where
  "pushCapped updates update =
     (let pushed = updates @ [update]
      in if length pushed > 100 then drop (length pushed - 100) pushed else pushed)"

text \<open>\<open>const callback = this.locationUpdateCallbacks.get(id); if (callback) callback(update)\<close>.\<close>

definition notify :: "'cb TrackingService \<Rightarrow> string \<Rightarrow> TrackingUpdate \<Rightarrow> ('cb \<times> TrackingUpdate) list" where
  "notify st i update =
     (case locationUpdateCallbacks st i of Some callback \<Rightarrow> [(callback, update)] | None \<Rightarrow> [])"

text \<open>
  \<open>updateItemLocationRealTime\<close>, the tick of the interval timer.  The result is the new
  state and the callbacks called.
\<close>

definition updateItemLocationRealTime ::
  "RealTimeEnv \<Rightarrow> string \<Rightarrow> 'cb TrackingService \<Rightarrow> 'cb TrackingService \<times> ('cb \<times> TrackingUpdate) list" where
  "updateItemLocationRealTime env i st =
     (case findItem st i of
        None \<Rightarrow> (st, [])
      | Some item \<Rightarrow>
          if \<not> isActive item \<or> status item \<noteq> lost then (st, [])
          else
            (case lastLocationOf item of
               None \<Rightarrow> (st, [])
             | Some lastLocation \<Rightarrow>
                 let newLocation = newRealTimeLocation env lastLocation;
                     distance = calculateDistance (position lastLocation) (position newLocation)
                 in if distance \<ge> 10 then
                      let update = newRealTimeUpdate env item newLocation;
                          st1 = setCurrentLocation st i newLocation;
                          updates = pushCapped (getTrackingHistory st1 (item_id item)) update;
                          st2 = st1\<lparr>trackingUpdates := (trackingUpdates st1)(item_id item \<mapsto> updates)\<rparr>
                      in (st2, notify st2 (item_id item) update)
                    else (st, [])))"

definition newManualUpdate :: "ManualEnv \<Rightarrow> string \<Rightarrow> Location \<Rightarrow> ItemType \<Rightarrow> TrackingUpdate" where
  "newManualUpdate env i l ty =
     \<lparr> upd_id = ''update_'' @ show_int (now_manual_id env),
       itemId = i,
       itemType = ty,
       location = l,
       upd_timestamp = now_manual env,
       upd_source = ''Manual Update'',
       confidence = 1 \<rparr>"

text \<open>
  \<open>updateItemLocation\<close>, the manual update.  The third component is the returned value:
  the update, or \<open>null\<close> when no item of the given kind has the id.
\<close>

definition updateItemLocation ::
  "ManualEnv \<Rightarrow> string \<Rightarrow> Location \<Rightarrow> ItemType \<Rightarrow> 'cb TrackingService \<Rightarrow>
     'cb TrackingService \<times> ('cb \<times> TrackingUpdate) list \<times> TrackingUpdate option" where
  "updateItemLocation env i l ty st =
     (case (if ty = device then devices st i else vehicles st i) of
        None \<Rightarrow> (st, [], None)
      | Some item \<Rightarrow>
          let st1 = (if ty = device
                     then st\<lparr>devices := (devices st)(i \<mapsto> item\<lparr>currentLocation := Some l\<rparr>)\<rparr>
                     else st\<lparr>vehicles := (vehicles st)(i \<mapsto> item\<lparr>currentLocation := Some l\<rparr>)\<rparr>);
              update = newManualUpdate env i l ty;
              updates = getTrackingHistory st1 i @ [update];
              st2 = st1\<lparr>trackingUpdates := (trackingUpdates st1)(i \<mapsto> updates)\<rparr>
          in (st2, notify st2 i update, Some update))"

definition subscribeToLocationUpdates :: "string \<Rightarrow> 'cb \<Rightarrow> 'cb TrackingService \<Rightarrow> 'cb TrackingService" where
  "subscribeToLocationUpdates i callback st =
     st\<lparr>locationUpdateCallbacks := (locationUpdateCallbacks st)(i \<mapsto> callback)\<rparr>"

definition unsubscribeFromLocationUpdates :: "string \<Rightarrow> 'cb TrackingService \<Rightarrow> 'cb TrackingService" where
  "unsubscribeFromLocationUpdates i st =
     st\<lparr>locationUpdateCallbacks := (locationUpdateCallbacks st)(i := None)\<rparr>"

text \<open>
  \<open>isItemMoving\<close>: the loop \<open>for (let i = 1; i < recent.length; i++)\<close> adds the distance
  from \<open>recent[i-1]\<close> to \<open>recent[i]\<close>.
\<close>

definition totalDistance :: "TrackingUpdate list \<Rightarrow> real" where
  "totalDistance recent =
     fold (\<lambda>i total. total + calculateDistance (position (location (recent ! (i - 1))))
                                                (position (location (recent ! i))))
          [1 ..< length recent] 0"

definition isItemMoving :: "'cb TrackingService \<Rightarrow> string \<Rightarrow> bool" where
  "isItemMoving st i =
     (let updates = getTrackingHistory st i
      in if length updates < 2 then False
         else let recent = drop (length updates - 5) updates
              in totalDistance recent > 50)"

text \<open>\<open>getItemSpeed\<close>: \<open>None\<close> is the returned \<open>null\<close>.\<close>

definition getItemSpeed :: "'cb TrackingService \<Rightarrow> string \<Rightarrow> real option" where
  "getItemSpeed st i =
     (let updates = getTrackingHistory st i
      in if length updates < 2 then None
         else let recent = drop (length updates - 2) updates;
                  distance = calculateDistance (position (location (recent ! 0)))
                                               (position (location (recent ! 1)));
                  timeDiff = real_of_int (upd_timestamp (recent ! 1) - upd_timestamp (recent ! 0)) / 1000
              in Some (if timeDiff > 0 then distance / timeDiff else 0))"

section \<open>MobileTrackingService\<close>

text \<open>
  The request as it arrives.  \<open>requestType\<close>, \<open>priority\<close> and a user's \<open>role\<close> are Prisma
  enums, strings at run time, and the service compares them with string literals.  An
  optional field is \<open>None\<close> when it is \<open>undefined\<close>.
\<close>

record MobileTrackingRequest =
  mobileNumber :: string
  requestType :: string
  priority :: string
  officerId :: string
  courtOrderNumber :: "string option"
  emergencyCode :: "string option"
  consentToken :: "string option"

record User =
  role :: string
  user_isActive :: bool

record MobileLocation =
  m_latitude :: real
  m_longitude :: real
  m_accuracy :: real
  m_address :: "string option"
  m_network :: string
  m_timestamp :: int

record MobileTrackingResult =
  success :: bool
  result_location :: "MobileLocation option"
  error :: "string option"
  requestId :: string

text \<open>The \<open>data\<close> of \<open>prisma.mobileTrackingRequest.update\<close>: the outcome of a request.\<close>

record RequestOutcome =
  outcome_success :: bool
  outcome_network :: string
  outcome_accuracy :: "real option"
  outcome_error :: "string option"
  outcome_locationId :: "string option"

text \<open>
  The writes the service sends to the database, in order: the request row created (with
  the id the database gave it), a location row created by \<open>saveLocation\<close> (id, latitude,
  longitude, accuracy, address), and the update that sets a request row's outcome.
\<close>

datatype DbWrite =
    RequestCreate string MobileTrackingRequest
  | LocationCreate string real real real "string option"
  | RequestUpdate string RequestOutcome

text \<open>
  What a call reads from outside: the user table, the carriers' API keys of the process
  environment, the ids the database assigns, the three draws of \<open>generateMockLocation\<close>,
  the clock and the reverse geocoder's address.  Database calls that fail are not modelled.
\<close>

record MobileEnv =
  users :: "string \<rightharpoonup> User"
  safaricom_apiKey :: "string option"
  airtel_apiKey :: "string option"
  telkom_apiKey :: "string option"
  new_request_id :: string
  mock_random_lat :: real
  mock_random_lng :: real
  mock_random_acc :: real
  mock_now :: int
  geocoded_address :: "string option"
  new_location_id :: string

definition validateTrackingRequest :: "(string \<rightharpoonup> User) \<Rightarrow> MobileTrackingRequest \<Rightarrow> bool" where
  "validateTrackingRequest us request =
     (case us (officerId request) of
        None \<Rightarrow> False
      | Some officer \<Rightarrow>
          if \<not> user_isActive officer then False
          else if role officer \<notin> set [''POLICE'', ''ADMIN''] then False
          else if requestType request = ''EMERGENCY'' then emergencyCode request \<noteq> None
          else if requestType request = ''COURT_ORDER'' then courtOrderNumber request \<noteq> None
          else if requestType request = ''CONSENT'' then consentToken request \<noteq> None
          else if requestType request = ''LOST_DEVICE'' then True
          else False)"

text \<open>\<open>s.replace(pat, rep)\<close> with a string pattern: the first occurrence only.\<close>

fun replaceFirst :: "string \<Rightarrow> string \<Rightarrow> string \<Rightarrow> string" where
  "replaceFirst pat rep [] = (if pat = [] then rep else [])"
| "replaceFirst pat rep (c # cs) =
     (if take (length pat) (c # cs) = pat then rep @ drop (length pat) (c # cs)
      else c # replaceFirst pat rep cs)"

definition safaricomPrefixes :: "string list" where
  "safaricomPrefixes =
     [''701'', ''702'', ''703'', ''704'', ''705'', ''706'', ''707'', ''708'', ''709'', ''710'',
      ''711'', ''712'', ''713'', ''714'', ''715'', ''716'', ''717'', ''718'', ''719'', ''720'',
      ''721'', ''722'', ''723'', ''724'', ''725'', ''726'', ''727'', ''728'', ''729'']"

definition airtelPrefixes :: "string list" where
  "airtelPrefixes =
     [''730'', ''731'', ''732'', ''733'', ''734'', ''735'', ''736'', ''737'', ''738'', ''739'',
      ''750'', ''751'', ''752'', ''753'', ''754'', ''755'', ''756'', ''757'', ''758'', ''759'']"

definition telkomPrefixes :: "string list" where
  "telkomPrefixes =
     [''770'', ''771'', ''772'', ''773'', ''774'', ''775'', ''776'', ''777'', ''778'', ''779'']"

definition identifyNetwork :: "string \<Rightarrow> string" where
  "identifyNetwork number =
     (let n = replaceFirst ''+254'' '''' number;
          prefix = take 3 n
      in if prefix \<in> set safaricomPrefixes then ''SAFARICOM''
         else if prefix \<in> set airtelPrefixes then ''AIRTEL''
         else if prefix \<in> set telkomPrefixes then ''TELKOM''
         else ''UNKNOWN'')"

definition generateMockLocation :: "MobileEnv \<Rightarrow> real \<times> real \<times> real" where
  "generateMockLocation env =
     (- 1.2921 + (mock_random_lat env - 0.5) * 0.1,
      36.8219 + (mock_random_lng env - 0.5) * 0.1,
      mock_random_acc env * 100 + 10)"

text \<open>
  The three carrier functions share one shape: \<open>if (!apiKey) throw\<close>, caught at once
  and returned as a failure that keeps the request id; otherwise the mock location.
  \<open>!apiKey\<close> holds for \<open>undefined\<close> and for the empty string.
\<close>

definition trackWithCarrier ::
  "string option \<Rightarrow> string \<Rightarrow> string \<Rightarrow> MobileEnv \<Rightarrow> string \<Rightarrow> MobileTrackingResult" where
  "trackWithCarrier apiKey notConfigured net env rid =
     (if apiKey = None \<or> apiKey = Some '''' then
        \<lparr> success = False, result_location = None, error = Some notConfigured, requestId = rid \<rparr>
      else
        (case generateMockLocation env of
           (la, lo, acc) \<Rightarrow>
             \<lparr> success = True,
               result_location =
                 Some \<lparr> m_latitude = la, m_longitude = lo, m_accuracy = acc, m_address = None,
                        m_network = net, m_timestamp = mock_now env \<rparr>,
               error = None,
               requestId = rid \<rparr>))"

definition trackWithSafaricom :: "MobileEnv \<Rightarrow> string \<Rightarrow> MobileTrackingResult" where
  "trackWithSafaricom env rid =
     trackWithCarrier (safaricom_apiKey env) ''Safaricom API not configured'' ''SAFARICOM'' env rid"

definition trackWithAirtel :: "MobileEnv \<Rightarrow> string \<Rightarrow> MobileTrackingResult" where
  "trackWithAirtel env rid =
     trackWithCarrier (airtel_apiKey env) ''Airtel API not configured'' ''AIRTEL'' env rid"

definition trackWithTelkom :: "MobileEnv \<Rightarrow> string \<Rightarrow> MobileTrackingResult" where
  "trackWithTelkom env rid =
     trackWithCarrier (telkom_apiKey env) ''Telkom API not configured'' ''TELKOM'' env rid"

text \<open>The result of the \<open>catch\<close> block of \<open>trackMobileNumber\<close>.\<close>

definition caught :: "string \<Rightarrow> MobileTrackingResult" where
  "caught message =
     \<lparr> success = False, result_location = None, error = Some message, requestId = '''' \<rparr>"

text \<open>
  The tail of \<open>trackMobileNumber\<close> after the \<open>switch\<close>: \<open>saveLocation\<close> when there is a
  location, then the update of the request row, then the result with the row's id.
\<close>

definition recordOutcome ::
  "MobileEnv \<Rightarrow> string \<Rightarrow> string \<Rightarrow> MobileTrackingResult \<Rightarrow> DbWrite list \<times> MobileTrackingResult" where
  "recordOutcome env rid net trackingResult =
     (let saved = (case result_location trackingResult of
                     None \<Rightarrow> []
                   | Some l \<Rightarrow> [LocationCreate (new_location_id env) (m_latitude l) (m_longitude l)
                                  (m_accuracy l) (geocoded_address env)]);
          outcome = \<lparr> outcome_success = success trackingResult,
                      outcome_network = net,
                      outcome_accuracy = map_option m_accuracy (result_location trackingResult),
                      outcome_error = error trackingResult,
                      outcome_locationId =
                        (case result_location trackingResult of
                           None \<Rightarrow> None | Some l \<Rightarrow> Some (new_location_id env)) \<rparr>
      in (saved @ [RequestUpdate rid outcome], trackingResult\<lparr>requestId := rid\<rparr>))"

text \<open>
  \<open>trackMobileNumber\<close>: the database writes made, in order, and the result returned.
\<close>

definition trackMobileNumber :: "MobileEnv \<Rightarrow> MobileTrackingRequest \<Rightarrow> DbWrite list \<times> MobileTrackingResult" where
  "trackMobileNumber env request =
     (if \<not> validateTrackingRequest (users env) request
      then ([], caught ''Unauthorized tracking request'')
      else
        let rid = new_request_id env;
            created = [RequestCreate rid request];
            net = identifyNetwork (mobileNumber request)
        in if net = ''SAFARICOM'' then
             (case recordOutcome env rid net (trackWithSafaricom env rid) of
                (ws, r) \<Rightarrow> (created @ ws, r))
           else if net = ''AIRTEL'' then
             (case recordOutcome env rid net (trackWithAirtel env rid) of
                (ws, r) \<Rightarrow> (created @ ws, r))
           else if net = ''TELKOM'' then
             (case recordOutcome env rid net (trackWithTelkom env rid) of
                (ws, r) \<Rightarrow> (created @ ws, r))
           else (created, caught ''Unknown network provider''))"

text \<open>How often a list of writes sets the outcome of the request row \<open>rid\<close>.\<close>

fun outcomeWrites :: "string \<Rightarrow> DbWrite list \<Rightarrow> nat" where
  "outcomeWrites rid [] = 0"
| "outcomeWrites rid (RequestUpdate r out # ws) = (if r = rid then 1 else 0) + outcomeWrites rid ws"
| "outcomeWrites rid (w # ws) = outcomeWrites rid ws"

section \<open>Reference notions and example data\<close>

text \<open>
  The last \<open>n\<close> entries of a history, oldest first (\<open>updates.slice(-n)\<close>), and the length
  of the path through a list of positions: the sum of the distances between neighbours.
\<close>

definition lastN :: "nat \<Rightarrow> 'a list \<Rightarrow> 'a list" where
  "lastN n xs = drop (length xs - n) xs"

fun pathLength :: "Position list \<Rightarrow> real" where
  "pathLength (p # q # ps) = calculateDistance p q + pathLength (q # ps)"
| "pathLength _ = 0"

definition positionsOf :: "TrackingUpdate list \<Rightarrow> Position list" where
  "positionsOf us = map (\<lambda>u. position (location u)) us"

text \<open>The updates a list of calls hands to one callback, in order.\<close>

definition deliveredTo :: "'cb \<Rightarrow> ('cb \<times> TrackingUpdate) list \<Rightarrow> TrackingUpdate list" where
  "deliveredTo cb calls = map snd (filter (\<lambda>c. fst c = cb) calls)"

text \<open>A run of \<open>n\<close> manual updates of one item, all with the same location and clock.\<close>

fun repeatManual ::
  "nat \<Rightarrow> ManualEnv \<Rightarrow> string \<Rightarrow> Location \<Rightarrow> ItemType \<Rightarrow> 'cb TrackingService \<Rightarrow> 'cb TrackingService" where
  "repeatManual 0 env i l ty st = st"
| "repeatManual (Suc n) env i l ty st = repeatManual n env i l ty (fst (updateItemLocation env i l ty st))"

text \<open>
  Example data: the first mock device of the service, at its reported place, with one
  subscriber (callbacks are named by strings here) and no history yet.
\<close>

definition newYork :: Location where
  "newYork =
     \<lparr> loc_id = ''loc1_current'', latitude = 40.7128, longitude = - 74.0060,
       address = Some ''New York, NY'', timestamp = 1736937000000, accuracy = Some 5,
       source = gps \<rparr>"

definition mockDevice :: Item where
  "mockDevice =
     \<lparr> item_id = ''1'', item_type = Some ''phone'', status = lost,
       lastKnownLocation = Some (newYork\<lparr>loc_id := ''loc1'', accuracy := None\<rparr>),
       currentLocation = Some newYork, isActive = True \<rparr>"

definition mockService :: "string TrackingService" where
  "mockService =
     \<lparr> devices = [''1'' \<mapsto> mockDevice], vehicles = Map.empty,
       trackingUpdates = Map.empty, locationUpdateCallbacks = [''1'' \<mapsto> ''mapView''] \<rparr>"

text \<open>
  Two subscribers to the mock device, one after the other: first the map view, then a
  dashboard.
\<close>

definition twoSubscribers :: "string TrackingService" where
  "twoSubscribers =
     subscribeToLocationUpdates ''1'' ''dashboard''
       (subscribeToLocationUpdates ''1'' ''mapView'' mockService)"

text \<open>
  Two ticks: one whose random draws land on the old position, one that moves the item
  north by \<open>0.0005\<close> degrees, about 55.6 m.
\<close>

definition stillEnv :: RealTimeEnv where
  "stillEnv =
     \<lparr> now_location_id = 1736937005000, random_suffix = ''k3j9x0q2a'',
       random_latitude = 0.5, random_longitude = 0.5, now_location = 1736937005000,
       random_accuracy = 0.1, now_update_id = 1736937005000, now_update = 1736937005000,
       random_confidence = 0.5 \<rparr>"

definition moveEnv :: RealTimeEnv where
  "moveEnv = stillEnv\<lparr>random_latitude := 0.75\<rparr>"

definition manualEnv :: ManualEnv where
  "manualEnv = \<lparr> now_manual_id = 1736937010000, now_manual = 1736937010000 \<rparr>"

text \<open>An update of item \<open>1\<close> on the zero meridian, at a given latitude and time.\<close>

definition updateAt :: "real \<Rightarrow> int \<Rightarrow> TrackingUpdate" where
  "updateAt la t =
     \<lparr> upd_id = ''update_'' @ show_int t, itemId = ''1'', itemType = device,
       location = \<lparr> loc_id = ''manual_'' @ show_int t, latitude = la, longitude = 0,
                    address = None, timestamp = t, accuracy = None, source = manual \<rparr>,
       upd_timestamp = t, upd_source = ''Manual Update'', confidence = 1 \<rparr>"

text \<open>The latitude 50 m north of the equator: an arc of 50 m on a sphere of radius 6371 km.\<close>

definition fiftyMetresNorth :: real where
  "fiftyMetresNorth = 9000 / (6371000 * pi)"

definition withHistory :: "TrackingUpdate list \<Rightarrow> string TrackingService" where
  "withHistory us = mockService\<lparr>trackingUpdates := [''1'' \<mapsto> us]\<rparr>"

text \<open>
  Example data of the mobile service: an active police officer, all carriers configured,
  and requests that differ in type, number and authorisation fields.
\<close>

definition mobileEnv :: MobileEnv where
  "mobileEnv =
     \<lparr> users = [''officer1'' \<mapsto> \<lparr> role = ''POLICE'', user_isActive = True \<rparr>],
       safaricom_apiKey = Some ''key-s'', airtel_apiKey = Some ''key-a'',
       telkom_apiKey = Some ''key-t'', new_request_id = ''req1'',
       mock_random_lat = 0.5, mock_random_lng = 0.5, mock_random_acc = 0.5,
       mock_now = 1736937020000, geocoded_address = Some ''Nairobi'',
       new_location_id = ''loc9'' \<rparr>"

definition lostDeviceRequest :: "string \<Rightarrow> MobileTrackingRequest" where
  "lostDeviceRequest number =
     \<lparr> mobileNumber = number, requestType = ''LOST_DEVICE'', priority = ''HIGH'',
       officerId = ''officer1'', courtOrderNumber = None, emergencyCode = None,
       consentToken = None \<rparr>"

definition courtOrderRequest :: "string option \<Rightarrow> MobileTrackingRequest" where
  "courtOrderRequest number =
     \<lparr> mobileNumber = ''+254701000000'', requestType = ''COURT_ORDER'', priority = ''HIGH'',
       officerId = ''officer1'', courtOrderNumber = number, emergencyCode = None,
       consentToken = None \<rparr>"

section \<open>Geodesy\<close>

lemma calculateDistance_same: "calculateDistance p p = 0"
  by (simp add: calculateDistance_def Math_atan2_def)

text \<open>
  Along a meridian, going north by less than half a turn, the haversine distance is the
  arc: radius times the difference of the latitudes in radians.
\<close>

lemma calculateDistance_meridian:
  assumes "la1 \<le> la2" "la2 - la1 < 180"
  shows "calculateDistance (la1, lo) (la2, lo) = 6371000 * ((la2 - la1) * pi / 180)"
proof -
  define x where "x = (la2 - la1) * pi / 180 / 2"
  have x0: "0 \<le> x" using assms by (simp add: x_def)
  have "(la2 - la1) * pi < 180 * pi" using assms by simp
  then have x1: "x < pi / 2" by (simp add: x_def)
  have cpos: "0 < cos x" using x0 x1 by (intro cos_gt_zero_pi) auto
  have spos: "0 \<le> sin x" using x0 x1 by (intro sin_ge_zero) auto
  have s: "sqrt (sin x * sin x) = sin x" using spos by simp
  have "1 - sin x * sin x = cos x * cos x"
    using sin_cos_squared_add[of x] by (simp add: power2_eq_square algebra_simps)
  then have c: "sqrt (1 - sin x * sin x) = cos x" using cpos by simp
  have t: "arctan (sin x / cos x) = x"
    using arctan_tan[of x] x0 x1 by (simp add: tan_def)
  have "calculateDistance (la1, lo) (la2, lo) =
          6371000 * (2 * Math_atan2 (sqrt (sin x * sin x)) (sqrt (1 - sin x * sin x)))"
    by (simp add: calculateDistance_def x_def Let_def)
  also have "\<dots> = 6371000 * (2 * x)"
    unfolding s c using cpos by (simp add: Math_atan2_def t)
  finally show ?thesis by (simp add: x_def)
qed


section \<open>The history buffer\<close>

lemma length_pushCapped: "length (pushCapped us u) \<le> 100"
  by (simp add: pushCapped_def Let_def)

lemma pushCapped_fifo: "pushCapped us u = lastN 100 (us @ [u])"
  by (simp add: pushCapped_def lastN_def Let_def)

lemma trackingUpdates_setCurrentLocation [simp]:
  "trackingUpdates (setCurrentLocation st i l) = trackingUpdates st"
  by (simp add: setCurrentLocation_def split: option.splits)

lemma getTrackingHistory_setCurrentLocation [simp]:
  "getTrackingHistory (setCurrentLocation st i l) k = getTrackingHistory st k"
  by (simp add: setCurrentLocation_def getTrackingHistory_def split: option.splits)

lemma callbacks_setCurrentLocation [simp]:
  "locationUpdateCallbacks (setCurrentLocation st i l) = locationUpdateCallbacks st"
  by (simp add: setCurrentLocation_def split: option.splits)

text \<open>
  What a tick does: nothing at all, or, for an active lost item whose candidate lies at
  least 10 m from its last location, one update pushed under the cap and handed to the
  callback registered for the item.
\<close>

lemma updateItemLocationRealTime_cases:
  assumes "updateItemLocationRealTime env i st = (st', calls)"
  shows "(st' = st \<and> calls = []) \<or>
         (\<exists>item lastLocation.
            findItem st i = Some item \<and> isActive item \<and> status item = lost \<and>
            lastLocationOf item = Some lastLocation \<and>
            10 \<le> calculateDistance (position lastLocation)
                    (position (newRealTimeLocation env lastLocation)) \<and>
            getTrackingHistory st' (item_id item) =
              pushCapped (getTrackingHistory st (item_id item))
                (newRealTimeUpdate env item (newRealTimeLocation env lastLocation)) \<and>
            calls = notify st (item_id item)
                      (newRealTimeUpdate env item (newRealTimeLocation env lastLocation)) \<and>
            locationUpdateCallbacks st' = locationUpdateCallbacks st)"
proof (cases "findItem st i")
  case None
  with assms show ?thesis by (simp add: updateItemLocationRealTime_def)
next
  case (Some item)
  show ?thesis
  proof (cases "isActive item \<and> status item = lost")
    case False
    with Some assms show ?thesis by (auto simp: updateItemLocationRealTime_def)
  next
    case True
    show ?thesis
    proof (cases "lastLocationOf item")
      case None
      with Some True assms show ?thesis by (simp add: updateItemLocationRealTime_def)
    next
      case (Some lastLocation)
      show ?thesis
      proof (cases "10 \<le> calculateDistance (position lastLocation)
                            (position (newRealTimeLocation env lastLocation))")
        case False
        with \<open>findItem st i = Some item\<close> True Some assms show ?thesis
          by (simp add: updateItemLocationRealTime_def Let_def)
      next
        case far: True
        from \<open>findItem st i = Some item\<close> True Some far assms
        have "getTrackingHistory st' (item_id item) =
                pushCapped (getTrackingHistory st (item_id item))
                  (newRealTimeUpdate env item (newRealTimeLocation env lastLocation))"
          and "calls = notify st (item_id item)
                  (newRealTimeUpdate env item (newRealTimeLocation env lastLocation))"
          and "locationUpdateCallbacks st' = locationUpdateCallbacks st"
          by (auto simp: updateItemLocationRealTime_def Let_def notify_def getTrackingHistory_def)
        with \<open>findItem st i = Some item\<close> True Some far show ?thesis by blast
      qed
    qed
  qed
qed

lemma updateItemLocationRealTime_cap:
  assumes "updateItemLocationRealTime env i st = (st', calls)"
    and "length (getTrackingHistory st k) \<le> 100"
  shows "length (getTrackingHistory st' k) \<le> 100"
proof (cases "findItem st i")
  case None
  with assms show ?thesis by (simp add: updateItemLocationRealTime_def)
next
  case (Some item)
  with assms show ?thesis
    using length_pushCapped
    by (auto simp: updateItemLocationRealTime_def Let_def getTrackingHistory_def
             split: option.splits if_splits)
qed

text \<open>What a manual update does to a known item: it appends, whatever the length.\<close>

lemma updateItemLocation_known:
  assumes "(if ty = device then devices st i else vehicles st i) = Some item"
  shows "snd (updateItemLocation env i l ty st) =
           (notify st i (newManualUpdate env i l ty), Some (newManualUpdate env i l ty))"
    and "getTrackingHistory (fst (updateItemLocation env i l ty st)) i =
           getTrackingHistory st i @ [newManualUpdate env i l ty]"
    and "locationUpdateCallbacks (fst (updateItemLocation env i l ty st)) =
           locationUpdateCallbacks st"
    and "(if ty = device then devices (fst (updateItemLocation env i l ty st)) i
          else vehicles (fst (updateItemLocation env i l ty st)) i) =
           Some (item\<lparr>currentLocation := Some l\<rparr>)"
  using assms
  by (cases "ty = device"; simp add: updateItemLocation_def Let_def getTrackingHistory_def notify_def)+

lemma updateItemLocation_unknown:
  assumes "(if ty = device then devices st i else vehicles st i) = None"
  shows "updateItemLocation env i l ty st = (st, [], None)"
  using assms by (simp add: updateItemLocation_def)

lemma repeatManual_length:
  "(if ty = device then devices st i else vehicles st i) = Some item \<Longrightarrow>
   length (getTrackingHistory (repeatManual n env i l ty st) i) =
     length (getTrackingHistory st i) + n"
proof (induction n arbitrary: st item)
  case 0
  then show ?case by simp
next
  case (Suc n)
  note step = updateItemLocation_known[OF Suc.prems, of env l]
  show ?case
    using Suc.IH[OF step(4)] step(2) by simp
qed

text \<open>
  C1: the tracking history of an entity never holds more than 100 entries, manual
  updates through \<open>updateItemLocation\<close> included, and the oldest entries go first.  The
  tick keeps the cap and evicts from the front (\<open>updateItemLocationRealTime_cap\<close>,
  \<open>pushCapped_fifo\<close>); the manual update appends without the cap.  After 101 manual
  updates of the mock device its history holds 101 entries.
\<close>

theorem C1_manual_updates_exceed_cap:
  "length (getTrackingHistory (repeatManual 101 manualEnv ''1'' newYork device mockService) ''1'') = 101"
proof -
  have "(if device = device then devices mockService ''1'' else vehicles mockService ''1'') =
          Some mockDevice"
    by (simp add: mockService_def)
  from repeatManual_length[OF this, of 101 manualEnv newYork]
  show ?thesis by (simp add: getTrackingHistory_def mockService_def)
qed

section \<open>The example data, evaluated\<close>

lemma mock_findItem: "findItem mockService ''1'' = Some mockDevice"
  by (simp add: findItem_def mockService_def)

lemma mock_lastLocation: "lastLocationOf mockDevice = Some newYork"
  by (simp add: lastLocationOf_def mockDevice_def)

lemma mock_callback: "locationUpdateCallbacks mockService ''1'' = Some ''mapView''"
  by (simp add: mockService_def)

lemma mock_active: "isActive mockDevice \<and> status mockDevice = lost \<and> item_id mockDevice = ''1''"
  by (simp add: mockDevice_def)

lemma still_distance:
  "calculateDistance (position newYork) (position (newRealTimeLocation stillEnv newYork)) = 0"
proof -
  have "position (newRealTimeLocation stillEnv newYork) = position newYork"
    by (simp add: position_def newRealTimeLocation_def stillEnv_def)
  then show ?thesis by (simp add: calculateDistance_same)
qed

lemma move_distance:
  "calculateDistance (position newYork) (position (newRealTimeLocation moveEnv newYork)) =
     6371000 * (0.0005 * pi / 180)"
proof -
  have p: "position newYork = (40.7128, - 74.0060)"
    by (simp add: position_def newYork_def)
  have q: "position (newRealTimeLocation moveEnv newYork) = (40.7133, - 74.0060)"
    by (simp add: position_def newRealTimeLocation_def moveEnv_def stillEnv_def newYork_def)
  show ?thesis
    unfolding p q using calculateDistance_meridian[of "40.7128" "40.7133" "- 74.0060"] by simp
qed

lemma move_distance_far:
  "10 \<le> calculateDistance (position newYork) (position (newRealTimeLocation moveEnv newYork))"
proof -
  have "10 \<le> 6371000 * (0.0005 * 2 / 180 :: real)" by simp
  also have "\<dots> \<le> 6371000 * (0.0005 * pi / 180)"
    using pi_ge_two by simp
  finally show ?thesis by (simp only: move_distance)
qed

lemma mock_tick_calls:
  "snd (updateItemLocationRealTime moveEnv ''1'' mockService) =
     [(''mapView'', newRealTimeUpdate moveEnv mockDevice (newRealTimeLocation moveEnv newYork))]"
  using move_distance_far mock_active
  by (simp add: updateItemLocationRealTime_def mock_findItem mock_lastLocation Let_def
        notify_def mock_callback)

lemma mock_tick_history:
  "getTrackingHistory (fst (updateItemLocationRealTime moveEnv ''1'' mockService)) ''1'' =
     [newRealTimeUpdate moveEnv mockDevice (newRealTimeLocation moveEnv newYork)]"
proof -
  have "getTrackingHistory mockService ''1'' = []"
    by (simp add: getTrackingHistory_def mockService_def)
  then show ?thesis
    using move_distance_far mock_active
    by (simp add: updateItemLocationRealTime_def mock_findItem mock_lastLocation Let_def
          pushCapped_def getTrackingHistory_def)
qed


section \<open>The significance filter\<close>

text \<open>
  C7: for an entity with a current location and a candidate sample closer to it than the
  threshold of 10 m, the tick leaves the whole state as it was (current location and
  history with it) and calls no callback.
\<close>

theorem C7_rejected_sample_no_effect:
  assumes "findItem st i = Some item"
    and "currentLocation item = Some cur"
    and "calculateDistance (position cur) (position (newRealTimeLocation env cur)) < 10"
  shows "updateItemLocationRealTime env i st = (st, [])"
  using assms by (simp add: updateItemLocationRealTime_def lastLocationOf_def Let_def)

theorem C7_rejected_sample_witness:
  "findItem mockService ''1'' = Some mockDevice \<and>
   currentLocation mockDevice = Some newYork \<and>
   calculateDistance (position newYork) (position (newRealTimeLocation stillEnv newYork)) < 10 \<and>
   updateItemLocationRealTime stillEnv ''1'' mockService = (mockService, [])"
proof -
  have c: "currentLocation mockDevice = Some newYork"
    by (simp add: mockDevice_def)
  have d: "calculateDistance (position newYork) (position (newRealTimeLocation stillEnv newYork)) < 10"
    by (simp add: still_distance)
  from C7_rejected_sample_no_effect[OF mock_findItem c d] mock_findItem c d
  show ?thesis by simp
qed

text \<open>
  C2, as amended: on the real-time path an update is created (the state changes or a
  callback is called) only when the candidate lies at least 10 m from the item's last
  location; the manual path \<open>updateItemLocation\<close> does not consult the filter and commits
  the given location of any known item: it appends the update, sets the current location
  and notifies.
\<close>

theorem C2_filter_gates_real_time_path_only:
  "(updateItemLocationRealTime env i st = (st', calls) \<and> (st' \<noteq> st \<or> calls \<noteq> []) \<longrightarrow>
      (\<exists>item lastLocation.
         findItem st i = Some item \<and> lastLocationOf item = Some lastLocation \<and>
         10 \<le> calculateDistance (position lastLocation)
                 (position (newRealTimeLocation env lastLocation)))) \<and>
   ((if ty = device then devices st k else vehicles st k) = Some known \<longrightarrow>
      snd (updateItemLocation menv k l ty st) =
        (notify st k (newManualUpdate menv k l ty), Some (newManualUpdate menv k l ty)) \<and>
      getTrackingHistory (fst (updateItemLocation menv k l ty st)) k =
        getTrackingHistory st k @ [newManualUpdate menv k l ty] \<and>
      (if ty = device then devices (fst (updateItemLocation menv k l ty st)) k
       else vehicles (fst (updateItemLocation menv k l ty st)) k) =
        Some (known\<lparr>currentLocation := Some l\<rparr>))"
proof (intro conjI impI)
  assume a: "updateItemLocationRealTime env i st = (st', calls) \<and> (st' \<noteq> st \<or> calls \<noteq> [])"
  then have "\<not> (st' = st \<and> calls = [])" by blast
  with updateItemLocationRealTime_cases[of env i st st' calls] a
  show "\<exists>item lastLocation.
          findItem st i = Some item \<and> lastLocationOf item = Some lastLocation \<and>
          10 \<le> calculateDistance (position lastLocation)
                  (position (newRealTimeLocation env lastLocation))"
    by blast
next
  assume k: "(if ty = device then devices st k else vehicles st k) = Some known"
  show "snd (updateItemLocation menv k l ty st) =
          (notify st k (newManualUpdate menv k l ty), Some (newManualUpdate menv k l ty))"
    by (rule updateItemLocation_known(1)[OF k])
  show "getTrackingHistory (fst (updateItemLocation menv k l ty st)) k =
          getTrackingHistory st k @ [newManualUpdate menv k l ty]"
    by (rule updateItemLocation_known(2)[OF k])
  show "(if ty = device then devices (fst (updateItemLocation menv k l ty st)) k
         else vehicles (fst (updateItemLocation menv k l ty st)) k) =
          Some (known\<lparr>currentLocation := Some l\<rparr>)"
    by (rule updateItemLocation_known(4)[OF k])
qed

theorem C2_filter_gates_witness:
  "snd (updateItemLocationRealTime moveEnv ''1'' mockService) \<noteq> [] \<and>
   (\<exists>item lastLocation.
      findItem mockService ''1'' = Some item \<and> lastLocationOf item = Some lastLocation \<and>
      10 \<le> calculateDistance (position lastLocation)
              (position (newRealTimeLocation moveEnv lastLocation))) \<and>
   devices mockService ''1'' = Some mockDevice \<and>
   getTrackingHistory (fst (updateItemLocation manualEnv ''1'' newYork device mockService)) ''1'' =
     [newManualUpdate manualEnv ''1'' newYork device]"
proof -
  have t: "snd (updateItemLocationRealTime moveEnv ''1'' mockService) \<noteq> []"
    by (simp add: mock_tick_calls)
  have d: "devices mockService ''1'' = Some mockDevice"
    by (simp add: mockService_def)
  have h: "getTrackingHistory mockService ''1'' = []"
    by (simp add: getTrackingHistory_def mockService_def)
  from C2_filter_gates_real_time_path_only
         [of moveEnv "''1''" mockService
             "fst (updateItemLocationRealTime moveEnv ''1'' mockService)"
             "snd (updateItemLocationRealTime moveEnv ''1'' mockService)"
             device "''1''" mockDevice manualEnv newYork]
       t d h
  show ?thesis by simp
qed

text \<open>
  The claim C2 as it is written fails on the manual path: a manual update of the mock
  device with the very location it is at, at distance 0 from the last one, is returned,
  appended to the history and delivered to the subscriber.
\<close>

theorem C2_manual_update_bypasses_filter:
  "currentLocation mockDevice = Some newYork \<and>
   calculateDistance (position newYork) (position newYork) < 10 \<and>
   snd (updateItemLocation manualEnv ''1'' newYork device mockService) =
     ([(''mapView'', newManualUpdate manualEnv ''1'' newYork device)],
      Some (newManualUpdate manualEnv ''1'' newYork device)) \<and>
   getTrackingHistory (fst (updateItemLocation manualEnv ''1'' newYork device mockService)) ''1'' =
     [newManualUpdate manualEnv ''1'' newYork device]"
proof -
  have k: "(if device = device then devices mockService ''1'' else vehicles mockService ''1'') =
             Some mockDevice"
    by (simp add: mockService_def)
  have h: "getTrackingHistory mockService ''1'' = []"
    by (simp add: getTrackingHistory_def mockService_def)
  show ?thesis
    using updateItemLocation_known(1,2)[OF k, of manualEnv newYork] h
    by (simp add: calculateDistance_same notify_def mock_callback mockDevice_def)
qed

section \<open>Subscriptions\<close>

lemma findItem_unsubscribe [simp]:
  "findItem (unsubscribeFromLocationUpdates e st) i = findItem st i"
  by (simp add: findItem_def unsubscribeFromLocationUpdates_def split: option.splits)

lemma callbacks_unsubscribe [simp]:
  "locationUpdateCallbacks (unsubscribeFromLocationUpdates e st) e = None"
  by (simp add: unsubscribeFromLocationUpdates_def)

lemma updateItemLocation_calls:
  "fst (snd (updateItemLocation menv e l ty st)) =
     (case snd (snd (updateItemLocation menv e l ty st)) of
        None \<Rightarrow> [] | Some u \<Rightarrow> notify st e u)"
proof (cases "(if ty = device then devices st e else vehicles st e)")
  case None
  then show ?thesis by (simp add: updateItemLocation_unknown)
next
  case (Some item)
  from updateItemLocation_known(1)[OF this, of menv l] show ?thesis by simp
qed

lemma updateItemLocation_callbacks:
  "locationUpdateCallbacks (fst (updateItemLocation menv e l ty st)) = locationUpdateCallbacks st"
proof (cases "(if ty = device then devices st e else vehicles st e)")
  case None
  then show ?thesis by (simp add: updateItemLocation_unknown)
next
  case (Some item)
  from updateItemLocation_known(3)[OF this, of menv l] show ?thesis .
qed

lemma length_notify: "length (notify st e u) \<le> 1"
  by (simp add: notify_def split: option.splits)

lemma findItem_subscribe [simp]:
  "findItem (subscribeToLocationUpdates e cb st) i = findItem st i"
  by (simp add: findItem_def subscribeToLocationUpdates_def split: option.splits)

lemma getTrackingHistory_subscribe [simp]:
  "getTrackingHistory (subscribeToLocationUpdates e cb st) k = getTrackingHistory st k"
  by (simp add: getTrackingHistory_def subscribeToLocationUpdates_def)

lemma deliveredTo_notify:
  "deliveredTo cb (notify st e u) = (if locationUpdateCallbacks st e = Some cb then [u] else [])"
  by (auto simp: deliveredTo_def notify_def split: option.splits)

text \<open>
  What a manual update does, whole: for an unknown item nothing, with \<open>null\<close> returned;
  for a known one the update is returned, appended to the history of the id and handed
  to the callback registered for the id.
\<close>

lemma updateItemLocation_cases:
  assumes "updateItemLocation menv e l ty st = (st', calls, r)"
  shows "(st' = st \<and> calls = [] \<and> r = None) \<or>
         (r = Some (newManualUpdate menv e l ty) \<and>
          getTrackingHistory st' e = getTrackingHistory st e @ [newManualUpdate menv e l ty] \<and>
          calls = notify st e (newManualUpdate menv e l ty))"
proof (cases "(if ty = device then devices st e else vehicles st e)")
  case None
  with assms show ?thesis by (simp add: updateItemLocation_unknown)
next
  case (Some item)
  from updateItemLocation_known(1,2)[OF this, of menv l] assms
  show ?thesis by simp
qed

text \<open>
  C8, as amended: the registry holds one callback for an entity id, the one of the last
  \<open>subscribe\<close> for the id by any caller, until an \<open>unsubscribe\<close> for the id by any caller
  removes it.  For every callback \<open>cb\<close> and every operation on entity \<open>e\<close>: an update that
  is not accepted changes nothing and calls nobody; an accepted update (returned and
  appended to the history of \<open>e\<close> by the manual path, pushed to the history of \<open>e\<close> by the
  tick) is delivered to \<open>cb\<close> exactly once if \<open>cb\<close> is the callback registered for \<open>e\<close> at
  that moment, and not at all otherwise: not to a callback that a later \<open>subscribe\<close> for
  the same id replaced, and to nobody after \<open>unsubscribe\<close>.  Neither operation changes
  the registry.
\<close>

theorem C8_registered_callback_notified_once:
  "(updateItemLocation menv e l ty st = (st1, calls1, r) \<longrightarrow>
      ((st1 = st \<and> r = None \<and> calls1 = []) \<or>
       (\<exists>u. r = Some u \<and>
            getTrackingHistory st1 e = getTrackingHistory st e @ [u] \<and>
            length calls1 \<le> 1 \<and>
            deliveredTo cb calls1 =
              (if locationUpdateCallbacks st e = Some cb then [u] else []))) \<and>
      locationUpdateCallbacks st1 = locationUpdateCallbacks st) \<and>
   (findItem st i = Some item \<and> item_id item = e \<and>
    updateItemLocationRealTime env i st = (st2, calls2) \<longrightarrow>
      ((st2 = st \<and> calls2 = []) \<or>
       (\<exists>u. getTrackingHistory st2 e = pushCapped (getTrackingHistory st e) u \<and>
            length calls2 \<le> 1 \<and>
            deliveredTo cb calls2 =
              (if locationUpdateCallbacks st e = Some cb then [u] else []))) \<and>
      locationUpdateCallbacks st2 = locationUpdateCallbacks st) \<and>
   locationUpdateCallbacks (subscribeToLocationUpdates e cb st) =
     (locationUpdateCallbacks st)(e \<mapsto> cb) \<and>
   locationUpdateCallbacks (unsubscribeFromLocationUpdates e st) =
     (locationUpdateCallbacks st)(e := None)"
proof (intro conjI impI)
  assume run: "updateItemLocation menv e l ty st = (st1, calls1, r)"
  from updateItemLocation_cases[OF run]
  show "(st1 = st \<and> r = None \<and> calls1 = []) \<or>
        (\<exists>u. r = Some u \<and>
             getTrackingHistory st1 e = getTrackingHistory st e @ [u] \<and>
             length calls1 \<le> 1 \<and>
             deliveredTo cb calls1 =
               (if locationUpdateCallbacks st e = Some cb then [u] else []))"
  proof
    assume "st1 = st \<and> calls1 = [] \<and> r = None"
    then show ?thesis by simp
  next
    assume acc: "r = Some (newManualUpdate menv e l ty) \<and>
                 getTrackingHistory st1 e =
                   getTrackingHistory st e @ [newManualUpdate menv e l ty] \<and>
                 calls1 = notify st e (newManualUpdate menv e l ty)"
    then have "length calls1 \<le> 1"
      using length_notify[of st e "newManualUpdate menv e l ty"] by simp
    moreover from acc have "deliveredTo cb calls1 =
        (if locationUpdateCallbacks st e = Some cb then [newManualUpdate menv e l ty] else [])"
      by (simp only: deliveredTo_notify)
    ultimately show ?thesis using acc by blast
  qed
  from updateItemLocation_callbacks[of menv e l ty st] run
  show "locationUpdateCallbacks st1 = locationUpdateCallbacks st" by simp
next
  assume a: "findItem st i = Some item \<and> item_id item = e \<and>
             updateItemLocationRealTime env i st = (st2, calls2)"
  then have item: "findItem st i = Some item" "item_id item = e"
    and run: "updateItemLocationRealTime env i st = (st2, calls2)" by simp_all
  from updateItemLocationRealTime_cases[OF run]
  show "(st2 = st \<and> calls2 = []) \<or>
        (\<exists>u. getTrackingHistory st2 e = pushCapped (getTrackingHistory st e) u \<and>
             length calls2 \<le> 1 \<and>
             deliveredTo cb calls2 =
               (if locationUpdateCallbacks st e = Some cb then [u] else []))"
  proof
    assume "st2 = st \<and> calls2 = []"
    then show ?thesis by simp
  next
    assume "\<exists>it lastLocation.
              findItem st i = Some it \<and> isActive it \<and> status it = lost \<and>
              lastLocationOf it = Some lastLocation \<and>
              10 \<le> calculateDistance (position lastLocation)
                      (position (newRealTimeLocation env lastLocation)) \<and>
              getTrackingHistory st2 (item_id it) =
                pushCapped (getTrackingHistory st (item_id it))
                  (newRealTimeUpdate env it (newRealTimeLocation env lastLocation)) \<and>
              calls2 = notify st (item_id it)
                        (newRealTimeUpdate env it (newRealTimeLocation env lastLocation)) \<and>
              locationUpdateCallbacks st2 = locationUpdateCallbacks st"
    then obtain it lastLocation where
          it: "findItem st i = Some it"
      and h: "getTrackingHistory st2 (item_id it) =
                pushCapped (getTrackingHistory st (item_id it))
                  (newRealTimeUpdate env it (newRealTimeLocation env lastLocation))"
      and c: "calls2 = notify st (item_id it)
                (newRealTimeUpdate env it (newRealTimeLocation env lastLocation))"
      by blast
    from it item have same: "it = item" by simp
    let ?u = "newRealTimeUpdate env item (newRealTimeLocation env lastLocation)"
    from h same item have "getTrackingHistory st2 e = pushCapped (getTrackingHistory st e) ?u"
      by simp
    moreover from c same item have "length calls2 \<le> 1"
      using length_notify[of st e ?u] by simp
    moreover from c same item have "deliveredTo cb calls2 =
        (if locationUpdateCallbacks st e = Some cb then [?u] else [])"
      by (simp only: deliveredTo_notify)
    ultimately show ?thesis by blast
  qed
  from updateItemLocationRealTime_cases[OF run]
  show "locationUpdateCallbacks st2 = locationUpdateCallbacks st" by auto
next
  show "locationUpdateCallbacks (subscribeToLocationUpdates e cb st) =
          (locationUpdateCallbacks st)(e \<mapsto> cb)"
    by (simp add: subscribeToLocationUpdates_def)
  show "locationUpdateCallbacks (unsubscribeFromLocationUpdates e st) =
          (locationUpdateCallbacks st)(e := None)"
    by (simp add: unsubscribeFromLocationUpdates_def)
qed

theorem C8_registered_callback_witness:
  "locationUpdateCallbacks mockService ''1'' = Some ''mapView'' \<and>
   findItem mockService ''1'' = Some mockDevice \<and> item_id mockDevice = ''1'' \<and>
   deliveredTo ''mapView''
     (fst (snd (updateItemLocation manualEnv ''1'' newYork device mockService))) =
     [newManualUpdate manualEnv ''1'' newYork device] \<and>
   deliveredTo ''mapView'' (snd (updateItemLocationRealTime moveEnv ''1'' mockService)) =
     [newRealTimeUpdate moveEnv mockDevice (newRealTimeLocation moveEnv newYork)] \<and>
   deliveredTo ''dashboard'' (snd (updateItemLocationRealTime moveEnv ''1'' mockService)) = [] \<and>
   deliveredTo ''mapView'' (snd (updateItemLocationRealTime stillEnv ''1'' mockService)) = []"
proof -
  have k: "(if device = device then devices mockService ''1'' else vehicles mockService ''1'') =
             Some mockDevice"
    by (simp add: mockService_def)
  have r: "snd (snd (updateItemLocation manualEnv ''1'' newYork device mockService)) =
             Some (newManualUpdate manualEnv ''1'' newYork device)"
    using updateItemLocation_known(1)[OF k, of manualEnv newYork] by simp
  have i1: "item_id mockDevice = ''1''" using mock_active by simp
  have h0: "getTrackingHistory mockService ''1'' = []"
    by (simp add: getTrackingHistory_def mockService_def)
  have e1: "updateItemLocation manualEnv ''1'' newYork device mockService =
              (fst (updateItemLocation manualEnv ''1'' newYork device mockService),
               fst (snd (updateItemLocation manualEnv ''1'' newYork device mockService)),
               snd (snd (updateItemLocation manualEnv ''1'' newYork device mockService)))"
    by simp
  have e2: "updateItemLocationRealTime moveEnv ''1'' mockService =
              (fst (updateItemLocationRealTime moveEnv ''1'' mockService),
               snd (updateItemLocationRealTime moveEnv ''1'' mockService))"
    by simp
  have e3: "updateItemLocationRealTime stillEnv ''1'' mockService =
              (fst (updateItemLocationRealTime stillEnv ''1'' mockService),
               snd (updateItemLocationRealTime stillEnv ''1'' mockService))"
    by simp
  have s: "snd (updateItemLocationRealTime stillEnv ''1'' mockService) = []"
    using mock_active
    by (simp add: updateItemLocationRealTime_def mock_findItem mock_lastLocation Let_def
          still_distance)
  have ne: "snd (updateItemLocationRealTime moveEnv ''1'' mockService) \<noteq> []"
    by (simp add: mock_tick_calls)
  have push: "\<And>u. pushCapped [] u = [u]"
    by (simp add: pushCapped_def)
  from C8_registered_callback_notified_once
         [of manualEnv "''1''" newYork device mockService
             "fst (updateItemLocation manualEnv ''1'' newYork device mockService)"
             "fst (snd (updateItemLocation manualEnv ''1'' newYork device mockService))"
             "snd (snd (updateItemLocation manualEnv ''1'' newYork device mockService))"
             "''mapView''"]
       e1 r mock_callback
  have c1: "deliveredTo ''mapView''
              (fst (snd (updateItemLocation manualEnv ''1'' newYork device mockService))) =
              [newManualUpdate manualEnv ''1'' newYork device]"
    by auto
  from C8_registered_callback_notified_once
         [of manualEnv "''1''" newYork device mockService _ _ _ "''mapView''"
             "''1''" mockDevice moveEnv
             "fst (updateItemLocationRealTime moveEnv ''1'' mockService)"
             "snd (updateItemLocationRealTime moveEnv ''1'' mockService)"]
       e2 mock_findItem i1 ne mock_callback mock_tick_history h0 push
  have c2: "deliveredTo ''mapView'' (snd (updateItemLocationRealTime moveEnv ''1'' mockService)) =
              [newRealTimeUpdate moveEnv mockDevice (newRealTimeLocation moveEnv newYork)]"
    by auto
  from C8_registered_callback_notified_once
         [of manualEnv "''1''" newYork device mockService _ _ _ "''dashboard''"
             "''1''" mockDevice moveEnv
             "fst (updateItemLocationRealTime moveEnv ''1'' mockService)"
             "snd (updateItemLocationRealTime moveEnv ''1'' mockService)"]
       e2 mock_findItem i1 ne mock_callback
  have c3: "deliveredTo ''dashboard'' (snd (updateItemLocationRealTime moveEnv ''1'' mockService)) = []"
    by auto
  have c4: "deliveredTo ''mapView'' (snd (updateItemLocationRealTime stillEnv ''1'' mockService)) = []"
    by (simp add: s deliveredTo_def)
  from mock_callback mock_findItem i1 c1 c2 c3 c4 show ?thesis by blast
qed

text \<open>
  The claim C8 as it is written, every subscriber registered through \<open>subscribe\<close> gets
  each accepted update once, fails when two subscribers register for the same entity:
  after \<open>subscribe('1', mapView)\<close> and then \<open>subscribe('1', dashboard)\<close>, with no
  \<open>unsubscribe\<close>, a manual update and a moving tick of item \<open>1\<close> are each accepted and
  stored, and each is delivered to \<open>dashboard\<close> only: \<open>mapView\<close> receives nothing.
\<close>

theorem C8_replaced_subscriber_receives_nothing:
  "snd (snd (updateItemLocation manualEnv ''1'' newYork device twoSubscribers)) =
     Some (newManualUpdate manualEnv ''1'' newYork device) \<and>
   getTrackingHistory (fst (updateItemLocation manualEnv ''1'' newYork device twoSubscribers)) ''1'' =
     [newManualUpdate manualEnv ''1'' newYork device] \<and>
   fst (snd (updateItemLocation manualEnv ''1'' newYork device twoSubscribers)) =
     [(''dashboard'', newManualUpdate manualEnv ''1'' newYork device)] \<and>
   deliveredTo ''mapView''
     (fst (snd (updateItemLocation manualEnv ''1'' newYork device twoSubscribers))) = [] \<and>
   getTrackingHistory (fst (updateItemLocationRealTime moveEnv ''1'' twoSubscribers)) ''1'' =
     [newRealTimeUpdate moveEnv mockDevice (newRealTimeLocation moveEnv newYork)] \<and>
   snd (updateItemLocationRealTime moveEnv ''1'' twoSubscribers) =
     [(''dashboard'', newRealTimeUpdate moveEnv mockDevice (newRealTimeLocation moveEnv newYork))] \<and>
   deliveredTo ''mapView'' (snd (updateItemLocationRealTime moveEnv ''1'' twoSubscribers)) = []"
proof -
  have k: "(if device = device then devices twoSubscribers ''1'' else vehicles twoSubscribers ''1'') =
             Some mockDevice"
    by (simp add: twoSubscribers_def subscribeToLocationUpdates_def mockService_def)
  have reg: "locationUpdateCallbacks twoSubscribers ''1'' = Some ''dashboard''"
    by (simp add: twoSubscribers_def subscribeToLocationUpdates_def)
  have h0: "getTrackingHistory twoSubscribers ''1'' = []"
    by (simp add: twoSubscribers_def) (simp add: getTrackingHistory_def mockService_def)
  have f: "findItem twoSubscribers ''1'' = Some mockDevice"
    by (simp add: twoSubscribers_def mock_findItem)
  note m = updateItemLocation_known(1,2)[OF k, of manualEnv newYork]
  have m1: "snd (snd (updateItemLocation manualEnv ''1'' newYork device twoSubscribers)) =
              Some (newManualUpdate manualEnv ''1'' newYork device)"
    and m3: "fst (snd (updateItemLocation manualEnv ''1'' newYork device twoSubscribers)) =
              [(''dashboard'', newManualUpdate manualEnv ''1'' newYork device)]"
    using m(1) by (simp_all add: notify_def reg)
  have m2: "getTrackingHistory (fst (updateItemLocation manualEnv ''1'' newYork device twoSubscribers)) ''1'' =
              [newManualUpdate manualEnv ''1'' newYork device]"
    using m(2) by (simp add: h0)
  have t1: "getTrackingHistory (fst (updateItemLocationRealTime moveEnv ''1'' twoSubscribers)) ''1'' =
              [newRealTimeUpdate moveEnv mockDevice (newRealTimeLocation moveEnv newYork)]"
    using move_distance_far mock_active h0
    by (simp add: updateItemLocationRealTime_def f mock_lastLocation Let_def pushCapped_def
          getTrackingHistory_def)
  have t2: "snd (updateItemLocationRealTime moveEnv ''1'' twoSubscribers) =
              [(''dashboard'', newRealTimeUpdate moveEnv mockDevice (newRealTimeLocation moveEnv newYork))]"
    using move_distance_far mock_active
    by (simp add: updateItemLocationRealTime_def f mock_lastLocation Let_def notify_def reg)
  show ?thesis
    by (simp add: m1 m2 m3 t1 t2 deliveredTo_def)
qed

text \<open>
  C10: the registry holds at most one callback for an entity id; subscribing replaces
  the callback registered for the id, whoever registered it; and an operation that
  publishes an update calls at most one callback.
\<close>

theorem C10_one_callback_per_entity:
  "card {cb. locationUpdateCallbacks st e = Some cb} \<le> 1 \<and>
   locationUpdateCallbacks (subscribeToLocationUpdates e cb2 st) e = Some cb2 \<and>
   card {cb. locationUpdateCallbacks (subscribeToLocationUpdates e cb2
                (subscribeToLocationUpdates e cb1 st)) e = Some cb} = 1 \<and>
   fst (snd (updateItemLocation menv e l ty
         (subscribeToLocationUpdates e cb2 (subscribeToLocationUpdates e cb1 st)))) =
     (case snd (snd (updateItemLocation menv e l ty st)) of
        None \<Rightarrow> [] | Some u \<Rightarrow> [(cb2, u)]) \<and>
   length (snd (updateItemLocationRealTime env i st)) \<le> 1 \<and>
   length (fst (snd (updateItemLocation menv i l ty st))) \<le> 1"
proof -
  have one: "card {cb. locationUpdateCallbacks st e = Some cb} \<le> 1"
  proof (cases "locationUpdateCallbacks st e")
    case None
    then show ?thesis by simp
  next
    case (Some c)
    then have "{cb. locationUpdateCallbacks st e = Some cb} = {c}" by auto
    then show ?thesis by simp
  qed
  have rep: "locationUpdateCallbacks (subscribeToLocationUpdates e cb2 st) e = Some cb2"
    by (simp add: subscribeToLocationUpdates_def)
  have "{cb. locationUpdateCallbacks (subscribeToLocationUpdates e cb2
               (subscribeToLocationUpdates e cb1 st)) e = Some cb} = {cb2}"
    by (auto simp: subscribeToLocationUpdates_def)
  then have two: "card {cb. locationUpdateCallbacks (subscribeToLocationUpdates e cb2
               (subscribeToLocationUpdates e cb1 st)) e = Some cb} = 1"
    by simp
  have man: "fst (snd (updateItemLocation menv e l ty
               (subscribeToLocationUpdates e cb2 (subscribeToLocationUpdates e cb1 st)))) =
             (case snd (snd (updateItemLocation menv e l ty st)) of
                None \<Rightarrow> [] | Some u \<Rightarrow> [(cb2, u)])"
    by (cases "ty = device")
       (simp_all add: updateItemLocation_def subscribeToLocationUpdates_def Let_def notify_def
          split: option.splits)
  have tick: "length (snd (updateItemLocationRealTime env i st)) \<le> 1"
    using updateItemLocationRealTime_cases
            [of env i st "fst (updateItemLocationRealTime env i st)"
                "snd (updateItemLocationRealTime env i st)"]
          length_notify
    by auto
  have manl: "length (fst (snd (updateItemLocation menv i l ty st))) \<le> 1"
    using updateItemLocation_calls[of menv i l ty st] length_notify
    by (simp split: option.splits)
  from one rep two man tick manl show ?thesis by blast
qed

theorem C10_one_callback_witness:
  "fst (snd (updateItemLocation manualEnv ''1'' newYork device
         (subscribeToLocationUpdates ''1'' ''dashboard''
           (subscribeToLocationUpdates ''1'' ''sidebar'' mockService)))) =
     [(''dashboard'', newManualUpdate manualEnv ''1'' newYork device)] \<and>
   length (snd (updateItemLocationRealTime moveEnv ''1'' mockService)) \<le> 1"
proof -
  have k: "(if device = device then devices mockService ''1'' else vehicles mockService ''1'') =
             Some mockDevice"
    by (simp add: mockService_def)
  have r: "snd (snd (updateItemLocation manualEnv ''1'' newYork device mockService)) =
             Some (newManualUpdate manualEnv ''1'' newYork device)"
    using updateItemLocation_known(1)[OF k, of manualEnv newYork] by simp
  from C10_one_callback_per_entity
         [of mockService "''1''" "''dashboard''" "''sidebar''" manualEnv newYork device
             moveEnv "''1''"]
  show ?thesis by (simp add: r)
qed

section \<open>Movement and speed\<close>

lemma pathLength_snoc:
  "pathLength (ps @ [p, q]) = pathLength (ps @ [p]) + calculateDistance p q"
  by (induction ps rule: pathLength.induct) simp_all

lemma totalDistance_snoc:
  assumes "recent \<noteq> []"
  shows "totalDistance (recent @ [u]) =
           totalDistance recent +
           calculateDistance (position (location (last recent))) (position (location u))"
proof -
  let ?n = "length recent"
  let ?f = "\<lambda>xs i total. total + calculateDistance (position (location (xs ! (i - 1))))
                                                    (position (location (xs ! i)))"
  from assms have n: "1 \<le> ?n" by (cases recent) simp_all
  then have split: "[1 ..< length (recent @ [u])] = [1 ..< ?n] @ [?n]" by simp
  have same: "fold (?f (recent @ [u])) [1 ..< ?n] 0 = fold (?f recent) [1 ..< ?n] 0"
    by (rule fold_cong) (auto simp: nth_append)
  have lastn: "(recent @ [u]) ! (?n - Suc 0) = last recent"
    using assms n by (simp add: nth_append last_conv_nth)
  show ?thesis
    unfolding totalDistance_def split fold_append comp_def fold_simps same
    by (simp add: lastn)
qed

lemma totalDistance_pathLength:
  "totalDistance recent = pathLength (positionsOf recent)"
proof (induction recent rule: rev_induct)
  case Nil
  show ?case by (simp add: totalDistance_def positionsOf_def)
next
  case (snoc u recent)
  show ?case
  proof (cases "recent = []")
    case True
    then show ?thesis by (simp add: totalDistance_def positionsOf_def)
  next
    case False
    then obtain front v where r: "recent = front @ [v]"
      by (metis append_butlast_last_id)
    have "totalDistance (recent @ [u]) =
            pathLength (positionsOf recent) +
            calculateDistance (position (location (last recent))) (position (location u))"
      using totalDistance_snoc[OF False, of u] snoc.IH by simp
    also have "\<dots> = pathLength (positionsOf (recent @ [u]))"
      using pathLength_snoc[of "positionsOf front" "position (location v)"
              "position (location u)"]
      by (simp add: r positionsOf_def)
    finally show ?thesis .
  qed
qed

lemma last_two_entries:
  assumes "2 \<le> length h"
  shows "drop (length h - 2) h ! 0 = h ! (length h - 2)"
    and "drop (length h - 2) h ! 1 = last h"
proof -
  from assms have ne: "h \<noteq> []" by auto
  show "drop (length h - 2) h ! 0 = h ! (length h - 2)"
    using assms by simp
  have "drop (length h - 2) h ! 1 = h ! (length h - 2 + 1)"
    using assms by (subst nth_drop) simp_all
  also have "length h - 2 + 1 = length h - 1" using assms by simp
  finally show "drop (length h - 2) h ! 1 = last h"
    using ne by (simp add: last_conv_nth)
qed

lemma updateAt_position [simp]: "position (location (updateAt la t)) = (la, 0)"
  by (simp add: updateAt_def position_def)

lemma updateAt_timestamp [simp]: "upd_timestamp (updateAt la t) = t"
  by (simp add: updateAt_def)

lemma withHistory_history [simp]: "getTrackingHistory (withHistory us) ''1'' = us"
  by (simp add: withHistory_def getTrackingHistory_def)

lemma fifty_metres: "calculateDistance (0, 0) (fiftyMetresNorth, 0) = 50"
proof -
  have "9000 / (6371000 * pi) \<le> 9000 / (6371000 * 2)"
    using pi_ge_two by (simp add: field_simps)
  then have "fiftyMetresNorth - 0 < 180" by (simp add: fiftyMetresNorth_def)
  moreover have "0 \<le> fiftyMetresNorth" by (simp add: fiftyMetresNorth_def)
  ultimately have "calculateDistance (0, 0) (fiftyMetresNorth, 0) =
                     6371000 * ((fiftyMetresNorth - 0) * pi / 180)"
    by (rule calculateDistance_meridian[rotated])
  then show ?thesis by (simp add: fiftyMetresNorth_def)
qed

lemma hundred_metres: "calculateDistance (0, 0) (1 / 1000, 0) = 6371 * pi / 180"
  using calculateDistance_meridian[of 0 "1 / 1000" 0] by simp

text \<open>
  C6, as amended: \<open>isItemMoving\<close> is false for an entity with fewer than 2 history
  entries, and otherwise true exactly when the sum of the distances between neighbours
  among the last 5 history entries, in chronological order, is greater than 50 m; at a
  total of exactly 50 m it is false.
\<close>

theorem C6_moving_iff_more_than_50:
  "isItemMoving st i \<longleftrightarrow>
     2 \<le> length (getTrackingHistory st i) \<and>
     50 < pathLength (positionsOf (lastN 5 (getTrackingHistory st i)))"
proof (cases "length (getTrackingHistory st i) < 2")
  case True
  then show ?thesis by (simp add: isItemMoving_def)
next
  case False
  then have "isItemMoving st i \<longleftrightarrow> 50 < totalDistance (lastN 5 (getTrackingHistory st i))"
    by (simp add: isItemMoving_def Let_def lastN_def)
  also have "totalDistance (lastN 5 (getTrackingHistory st i)) =
               pathLength (positionsOf (lastN 5 (getTrackingHistory st i)))"
    by (rule totalDistance_pathLength)
  finally show ?thesis using False by simp
qed

theorem C6_moving_witness:
  "isItemMoving (withHistory [updateAt 0 0, updateAt 0.001 5000]) ''1'' \<and>
   \<not> isItemMoving (withHistory [updateAt 0 0]) ''1'' \<and>
   \<not> isItemMoving (withHistory [updateAt 0 0, updateAt 0 5000]) ''1''"
proof -
  have "(50::real) < 6371 * 2 / 180" by simp
  also have "\<dots> \<le> 6371 * pi / 180" using pi_ge_two by simp
  finally have far: "50 < calculateDistance (0, 0) (1 / 1000, 0)"
    by (simp only: hundred_metres)
  show ?thesis
    using far
    by (simp add: C6_moving_iff_more_than_50 lastN_def calculateDistance_same positionsOf_def)
qed

text \<open>
  The claim C6 as it is written, moving if and only if the total is at least 50 m, fails
  at a total of exactly 50 m: two entries 50 m apart on a meridian are not moving.
\<close>

theorem C6_exactly_50_not_moving:
  "length (getTrackingHistory
            (withHistory [updateAt 0 0, updateAt (fiftyMetresNorth) 5000]) ''1'') = 2 \<and>
   pathLength (map (position \<circ> location)
     (lastN 5 (getTrackingHistory
                (withHistory [updateAt 0 0, updateAt (fiftyMetresNorth) 5000]) ''1''))) = 50 \<and>
   \<not> isItemMoving (withHistory [updateAt 0 0, updateAt (fiftyMetresNorth) 5000]) ''1''"
  by (simp add: isItemMoving_def Let_def totalDistance_pathLength lastN_def fifty_metres
        positionsOf_def)

text \<open>
  C4, as amended: \<open>getItemSpeed\<close> is computed from the last 2 history entries as distance
  divided by elapsed seconds; it returns \<open>null\<close> exactly when fewer than 2 entries exist;
  when the elapsed time is 0 (or negative) it returns the number 0, not \<open>null\<close>.  It is a
  total function: no case is thrown as an error.
\<close>

theorem C4_speed_from_last_two:
  "(getItemSpeed st i = None \<longleftrightarrow> length (getTrackingHistory st i) < 2) \<and>
   (2 \<le> length (getTrackingHistory st i) \<longrightarrow>
      getItemSpeed st i =
        (let h = getTrackingHistory st i;
             a = h ! (length h - 2);
             b = last h;
             secs = real_of_int (upd_timestamp b - upd_timestamp a) / 1000
         in Some (if 0 < secs
                  then calculateDistance (position (location a)) (position (location b)) / secs
                  else 0)))"
proof (intro conjI impI)
  show "getItemSpeed st i = None \<longleftrightarrow> length (getTrackingHistory st i) < 2"
    by (simp add: getItemSpeed_def Let_def)
next
  assume n: "2 \<le> length (getTrackingHistory st i)"
  note two = last_two_entries[OF n]
  from n show "getItemSpeed st i =
        (let h = getTrackingHistory st i;
             a = h ! (length h - 2);
             b = last h;
             secs = real_of_int (upd_timestamp b - upd_timestamp a) / 1000
         in Some (if 0 < secs
                  then calculateDistance (position (location a)) (position (location b)) / secs
                  else 0))"
    by (simp add: getItemSpeed_def Let_def two del: One_nat_def)
qed

theorem C4_speed_witness:
  "getItemSpeed (withHistory [updateAt 0 0]) ''1'' = None \<and>
   2 \<le> length (getTrackingHistory (withHistory [updateAt 0 0, updateAt 0.001 5000]) ''1'') \<and>
   getItemSpeed (withHistory [updateAt 0 0, updateAt 0.001 5000]) ''1'' =
     Some (6371 * pi / 180 / 5)"
proof -
  have n: "getItemSpeed (withHistory [updateAt 0 0]) ''1'' = None"
    using C4_speed_from_last_two[of "withHistory [updateAt 0 0]" "''1''"] by simp
  have l: "2 \<le> length (getTrackingHistory (withHistory [updateAt 0 0, updateAt 0.001 5000]) ''1'')"
    by simp
  from C4_speed_from_last_two[of "withHistory [updateAt 0 0, updateAt 0.001 5000]" "''1''"] l
  have "getItemSpeed (withHistory [updateAt 0 0, updateAt 0.001 5000]) ''1'' =
          Some (6371 * pi / 180 / 5)"
    by (simp add: Let_def hundred_metres)
  with n l show ?thesis by blast
qed

text \<open>
  The claim C4 as it is written, \<open>null\<close> when the elapsed time is 0, fails: for two
  entries with the same timestamp the result is the number 0.
\<close>

theorem C4_zero_elapsed_returns_zero:
  "upd_timestamp (updateAt 0.001 5000) - upd_timestamp (updateAt 0 5000) = 0 \<and>
   getItemSpeed (withHistory [updateAt 0 5000, updateAt 0.001 5000]) ''1'' = Some 0 \<and>
   getItemSpeed (withHistory [updateAt 0 5000, updateAt 0.001 5000]) ''1'' \<noteq> None"
  by (simp add: getItemSpeed_def Let_def)

section \<open>Printed distances\<close>

lemma digit_val_digit_char: "d < 10 \<Longrightarrow> digit_val (digit_char d) = d"
proof -
  assume "d < 10"
  then have "d \<in> {0, 1, 2, 3, 4, 5, 6, 7, 8, 9}" by auto
  then show ?thesis by (auto simp: digit_val_def digit_char_def)
qed

lemma read_nat_snoc: "read_nat (s @ [c]) = 10 * read_nat s + digit_val c"
  by (simp add: read_nat_def)

text \<open>The digits printed for a number denote that number.\<close>

lemma read_show_nat: "read_nat (show_nat n) = n"
proof (induction n rule: show_nat.induct)
  case (1 n)
  show ?case
  proof (cases "n < 10")
    case True
    then show ?thesis
      by (simp add: show_nat.simps[of n] read_nat_def digit_val_digit_char)
  next
    case False
    with 1 show ?thesis
      by (simp add: show_nat.simps[of n] read_nat_snoc digit_val_digit_char)
  qed
qed

lemma Math_round_nearest: "\<bar>real_of_int (Math_round x) - x\<bar> \<le> 1 / 2"
  unfolding Math_round_def by linarith

lemma show_int_nonneg: "0 \<le> i \<Longrightarrow> show_int i = show_nat (nat i)"
  by (simp add: show_int_def)

lemma toFixed1_tenths:
  assumes "0 \<le> x"
  shows "\<exists>n. toFixed1 x = show_nat (n div 10) @ ''.'' @ [digit_char (n mod 10)] \<and>
             \<bar>real n / 10 - x\<bar> \<le> 1 / 20"
proof -
  let ?n = "nat \<lfloor>x * 10 + 1 / 2\<rfloor>"
  have nn: "0 \<le> \<lfloor>x * 10 + 1 / 2\<rfloor>" using assms by simp
  then have "real ?n = real_of_int \<lfloor>x * 10 + 1 / 2\<rfloor>" by simp
  then have "\<bar>real ?n - x * 10\<bar> \<le> 1 / 2" by linarith
  then have "\<bar>real ?n / 10 - x\<bar> \<le> 1 / 20" by (simp add: field_simps abs_le_iff)
  moreover have "toFixed1 x = show_nat (?n div 10) @ ''.'' @ [digit_char (?n mod 10)]"
    using assms by (simp add: toFixed1_def Let_def)
  ultimately show ?thesis by blast
qed

text \<open>
  C9: \<open>formatDistance\<close> is a function of its argument alone.  Below 1000 it prints the
  integer nearest to the metres, followed by \<open>m\<close>; from 1000 to below 10000 it prints the
  kilometres to one decimal, the nearest tenth, followed by \<open>km\<close>; from 10000 on it prints
  the integer nearest to the kilometres, followed by \<open>km\<close>.  In particular 500 gives
  \<open>500m\<close>, 1500 gives \<open>1.5km\<close> and 25000 gives \<open>25km\<close>.
\<close>

theorem C9_formatDistance:
  "(meters < 1000 \<longrightarrow>
      formatDistance meters = show_int (Math_round meters) @ ''m'' \<and>
      \<bar>real_of_int (Math_round meters) - meters\<bar> \<le> 1 / 2) \<and>
   (0 \<le> meters \<and> meters < 1000 \<longrightarrow>
      (\<exists>n. formatDistance meters = show_nat n @ ''m'' \<and> read_nat (show_nat n) = n \<and>
           \<bar>real n - meters\<bar> \<le> 1 / 2)) \<and>
   (1000 \<le> meters \<and> meters < 10000 \<longrightarrow>
      (\<exists>n. formatDistance meters =
              show_nat (n div 10) @ ''.'' @ [digit_char (n mod 10)] @ ''km'' \<and>
           \<bar>real n / 10 - meters / 1000\<bar> \<le> 1 / 20)) \<and>
   (10000 \<le> meters \<longrightarrow>
      (\<exists>n. formatDistance meters = show_nat n @ ''km'' \<and> read_nat (show_nat n) = n \<and>
           \<bar>real n - meters / 1000\<bar> \<le> 1 / 2)) \<and>
   formatDistance 500 = ''500m'' \<and>
   formatDistance 1500 = ''1.5km'' \<and>
   formatDistance 25000 = ''25km''"
proof (intro conjI impI)
  assume "meters < 1000"
  then show "formatDistance meters = show_int (Math_round meters) @ ''m''"
    by (simp add: formatDistance_def)
  show "\<bar>real_of_int (Math_round meters) - meters\<bar> \<le> 1 / 2"
    by (rule Math_round_nearest)
next
  assume a: "0 \<le> meters \<and> meters < 1000"
  then have nn: "0 \<le> Math_round meters" by (simp add: Math_round_def)
  let ?n = "nat (Math_round meters)"
  have "formatDistance meters = show_nat ?n @ ''m''"
    using a nn by (simp add: formatDistance_def show_int_nonneg)
  moreover have "\<bar>real ?n - meters\<bar> \<le> 1 / 2"
    using Math_round_nearest[of meters] nn by simp
  ultimately show "\<exists>n. formatDistance meters = show_nat n @ ''m'' \<and>
                       read_nat (show_nat n) = n \<and> \<bar>real n - meters\<bar> \<le> 1 / 2"
    using read_show_nat by blast
next
  assume a: "1000 \<le> meters \<and> meters < 10000"
  then have "0 \<le> meters / 1000" by simp
  from toFixed1_tenths[OF this] a
  show "\<exists>n. formatDistance meters =
               show_nat (n div 10) @ ''.'' @ [digit_char (n mod 10)] @ ''km'' \<and>
            \<bar>real n / 10 - meters / 1000\<bar> \<le> 1 / 20"
    by (auto simp: formatDistance_def)
next
  assume a: "10000 \<le> meters"
  then have nn: "0 \<le> Math_round (meters / 1000)" by (simp add: Math_round_def)
  let ?n = "nat (Math_round (meters / 1000))"
  have "formatDistance meters = show_nat ?n @ ''km''"
    using a nn by (simp add: formatDistance_def show_int_nonneg)
  moreover have "\<bar>real ?n - meters / 1000\<bar> \<le> 1 / 2"
    using Math_round_nearest[of "meters / 1000"] nn by simp
  ultimately show "\<exists>n. formatDistance meters = show_nat n @ ''km'' \<and>
                       read_nat (show_nat n) = n \<and> \<bar>real n - meters / 1000\<bar> \<le> 1 / 2"
    using read_show_nat by blast
next
  show "formatDistance 500 = ''500m''"
    by (simp add: formatDistance_def Math_round_def show_int_def show_nat.simps digit_char_def)
  show "formatDistance 1500 = ''1.5km''"
    by (simp add: formatDistance_def toFixed1_def show_nat.simps digit_char_def)
  show "formatDistance 25000 = ''25km''"
    by (simp add: formatDistance_def Math_round_def show_int_def show_nat.simps digit_char_def)
qed

theorem C9_formatDistance_witness:
  "(999.5::real) < 1000 \<and> formatDistance 999.5 = ''1000m'' \<and>
   (1000::real) \<le> 1000 \<and> (1000::real) < 10000 \<and>
   (\<exists>n. formatDistance 1000 = show_nat (n div 10) @ ''.'' @ [digit_char (n mod 10)] @ ''km'' \<and>
        \<bar>real n / 10 - 1000 / 1000\<bar> \<le> 1 / 20) \<and>
   (10000::real) \<le> 10000 \<and>
   (\<exists>n. formatDistance 10000 = show_nat n @ ''km'' \<and> \<bar>real n - 10000 / 1000\<bar> \<le> 1 / 2)"
proof -
  from C9_formatDistance[of "999.5"]
  have a: "formatDistance 999.5 = ''1000m''"
    by (simp add: Math_round_def show_int_def show_nat.simps digit_char_def)
  from C9_formatDistance[of 1000]
  have b: "\<exists>n. formatDistance 1000 =
                 show_nat (n div 10) @ ''.'' @ [digit_char (n mod 10)] @ ''km'' \<and>
              \<bar>real n / 10 - 1000 / 1000\<bar> \<le> 1 / 20"
    by simp
  from C9_formatDistance[of 10000]
  have c: "\<exists>n. formatDistance 10000 = show_nat n @ ''km'' \<and> \<bar>real n - 10000 / 1000\<bar> \<le> 1 / 2"
    by blast
  from a b c show ?thesis by simp
qed

section \<open>Mobile tracking requests\<close>

lemma identifyNetwork_cases:
  "identifyNetwork number \<in> {''SAFARICOM'', ''AIRTEL'', ''TELKOM'', ''UNKNOWN''}"
  by (simp add: identifyNetwork_def Let_def)

lemma outcomeWrites_recordOutcome:
  "outcomeWrites rid (fst (recordOutcome env rid net r)) = 1"
  by (simp add: recordOutcome_def Let_def split: option.splits)

text \<open>
  For an authorised request whose number belongs to one of the three carriers, the
  request row is created and its outcome is set exactly once, whether the carrier lookup
  succeeds or fails, and the result carries the row's id.
\<close>

lemma trackMobileNumber_known_carrier:
  assumes "validateTrackingRequest (users env) request"
    and "identifyNetwork (mobileNumber request) \<noteq> ''UNKNOWN''"
  shows "outcomeWrites (new_request_id env) (fst (trackMobileNumber env request)) = 1"
    and "requestId (snd (trackMobileNumber env request)) = new_request_id env"
    and "hd (fst (trackMobileNumber env request)) = RequestCreate (new_request_id env) request"
  using assms identifyNetwork_cases[of "mobileNumber request"]
  by (auto simp: trackMobileNumber_def Let_def recordOutcome_def split: option.splits prod.splits)

lemma mobile_officer: "users mobileEnv ''officer1'' = Some \<lparr> role = ''POLICE'', user_isActive = True \<rparr>"
  by (simp add: mobileEnv_def)

text \<open>
  What the validation does refuse: whatever the officer's role, a \<open>COURT_ORDER\<close> request
  whose \<open>courtOrderNumber\<close> is absent, an \<open>EMERGENCY\<close> request without an \<open>emergencyCode\<close>
  and a \<open>CONSENT\<close> request without a \<open>consentToken\<close> end in the unauthorised failure, with
  no database write.
\<close>

lemma trackMobileNumber_absent_field:
  assumes "(requestType request = ''COURT_ORDER'' \<and> courtOrderNumber request = None) \<or>
           (requestType request = ''EMERGENCY'' \<and> emergencyCode request = None) \<or>
           (requestType request = ''CONSENT'' \<and> consentToken request = None)"
  shows "trackMobileNumber env request = ([], caught ''Unauthorized tracking request'')"
proof -
  from assms have "\<not> validateTrackingRequest (users env) request"
    by (auto simp: validateTrackingRequest_def split: option.splits)
  then show ?thesis
    by (simp add: trackMobileNumber_def)
qed

lemma absent_court_order_number_refused:
  "trackMobileNumber mobileEnv (courtOrderRequest None) =
     ([], caught ''Unauthorized tracking request'')"
  by (rule trackMobileNumber_absent_field) (simp add: courtOrderRequest_def)

text \<open>
  C3: whatever the officer's role, a \<open>COURT_ORDER\<close> request whose \<open>courtOrderNumber\<close> is
  the empty string is to end in the unauthorised failure, and likewise an \<open>EMERGENCY\<close>
  request needs a non-empty \<open>emergencyCode\<close> and a \<open>CONSENT\<close> request a non-empty
  \<open>consentToken\<close>.  The validation asks for the field of each request type and tests it
  with \<open>!== undefined\<close> only, so the empty string passes: a \<open>COURT_ORDER\<close> request of an
  active police officer with \<open>courtOrderNumber\<close> equal to the empty string is validated,
  gets its request row, and is tracked with success instead of being refused.
\<close>

theorem C3_empty_court_order_number_accepted:
  "requestType (courtOrderRequest (Some '''')) = ''COURT_ORDER'' \<and>
   courtOrderNumber (courtOrderRequest (Some '''')) = Some '''' \<and>
   validateTrackingRequest (users mobileEnv) (courtOrderRequest (Some '''')) \<and>
   trackMobileNumber mobileEnv (courtOrderRequest (Some '''')) \<noteq>
     ([], caught ''Unauthorized tracking request'') \<and>
   hd (fst (trackMobileNumber mobileEnv (courtOrderRequest (Some '''')))) =
     RequestCreate ''req1'' (courtOrderRequest (Some '''')) \<and>
   success (snd (trackMobileNumber mobileEnv (courtOrderRequest (Some '''')))) \<and>
   error (snd (trackMobileNumber mobileEnv (courtOrderRequest (Some '''')))) = None"
proof -
  have v: "validateTrackingRequest (users mobileEnv) (courtOrderRequest (Some ''''))"
    by (simp add: validateTrackingRequest_def courtOrderRequest_def mobileEnv_def)
  have n: "identifyNetwork (mobileNumber (courtOrderRequest (Some ''''))) = ''SAFARICOM''"
    by (simp add: courtOrderRequest_def identifyNetwork_def safaricomPrefixes_def)
  have k: "safaricom_apiKey mobileEnv = Some ''key-s''"
    and i: "new_request_id mobileEnv = ''req1''"
    by (simp_all add: mobileEnv_def)
  have r: "snd (trackMobileNumber mobileEnv (courtOrderRequest (Some ''''))) =
             (trackWithSafaricom mobileEnv (new_request_id mobileEnv))
               \<lparr>requestId := new_request_id mobileEnv\<rparr>"
    using v n by (simp add: trackMobileNumber_def Let_def recordOutcome_def)
  have t: "requestType (courtOrderRequest (Some '''')) = ''COURT_ORDER''"
    and c: "courtOrderNumber (courtOrderRequest (Some '''')) = Some ''''"
    by (simp_all add: courtOrderRequest_def)
  have s: "success (snd (trackMobileNumber mobileEnv (courtOrderRequest (Some ''''))))"
    and e: "error (snd (trackMobileNumber mobileEnv (courtOrderRequest (Some '''')))) = None"
    by (simp_all add: r trackWithSafaricom_def trackWithCarrier_def k generateMockLocation_def)
  have "\<not> success (snd ([] :: DbWrite list, caught ''Unauthorized tracking request''))"
    by (simp add: caught_def)
  with s have d: "trackMobileNumber mobileEnv (courtOrderRequest (Some '''')) \<noteq>
                    ([], caught ''Unauthorized tracking request'')"
    by auto
  have "identifyNetwork (mobileNumber (courtOrderRequest (Some ''''))) \<noteq> ''UNKNOWN''"
    by (simp add: n)
  from trackMobileNumber_known_carrier(3)[OF v this]
  have h: "hd (fst (trackMobileNumber mobileEnv (courtOrderRequest (Some '''')))) =
             RequestCreate ''req1'' (courtOrderRequest (Some ''''))"
    by (simp add: i)
  from t c v d h s e show ?thesis by blast
qed

text \<open>
  C5: the outcome of every request record is set exactly once, on every path of
  \<open>trackMobileNumber\<close>, the unknown network provider included.  For the three carriers
  this holds (\<open>trackMobileNumber_known_carrier\<close>).  For an authorised request whose
  number has no known prefix the row is created and the exception of the \<open>switch\<close> skips
  the update: the outcome is never set, and the result carries an empty request id.
\<close>

theorem C5_unknown_network_outcome_never_set:
  "validateTrackingRequest (users mobileEnv) (lostDeviceRequest ''+254799000000'') \<and>
   identifyNetwork ''+254799000000'' = ''UNKNOWN'' \<and>
   trackMobileNumber mobileEnv (lostDeviceRequest ''+254799000000'') =
     ([RequestCreate ''req1'' (lostDeviceRequest ''+254799000000'')],
      caught ''Unknown network provider'') \<and>
   outcomeWrites ''req1'' (fst (trackMobileNumber mobileEnv (lostDeviceRequest ''+254799000000''))) = 0"
proof -
  have v: "validateTrackingRequest (users mobileEnv) (lostDeviceRequest ''+254799000000'')"
    by (simp add: validateTrackingRequest_def lostDeviceRequest_def mobileEnv_def)
  have n: "identifyNetwork ''+254799000000'' = ''UNKNOWN''"
    by (simp add: identifyNetwork_def safaricomPrefixes_def airtelPrefixes_def telkomPrefixes_def)
  have m: "mobileNumber (lostDeviceRequest ''+254799000000'') = ''+254799000000''"
    by (simp add: lostDeviceRequest_def)
  have i: "new_request_id mobileEnv = ''req1''"
    by (simp add: mobileEnv_def)
  have t: "trackMobileNumber mobileEnv (lostDeviceRequest ''+254799000000'') =
             ([RequestCreate ''req1'' (lostDeviceRequest ''+254799000000'')],
              caught ''Unknown network provider'')"
    using v by (simp add: trackMobileNumber_def Let_def m n i)
  from v n t show ?thesis by simp
qed

end
